theory Spec2Isabelle
  imports Main "HOL-Library.Word"
begin

unbundle bit_operations_syntax

section \<open>JavaScript values used by the music processor\<close>

text \<open>
  The processor (\<^verbatim>\<open>client/src/services/musicProcessor.ts\<close>) computes with JavaScript
  numbers that hold integers: octaves, alterations, semitone counts and MIDI note numbers.
  They are modelled as \<^typ>\<open>int\<close>; doubles are exact on integers below \<open>2 ^ 53\<close> in
  magnitude, which is the range the model speaks about. A value that may be
  \<^verbatim>\<open>undefined\<close> at run time is an \<^typ>\<open>'a option\<close>, with \<^term>\<open>None\<close> for
  \<^verbatim>\<open>undefined\<close>.

  Object literals used as lookup tables are association lists of their own properties.
  \<^verbatim>\<open>noteMap\<close> is read at the step letters of a document and
  \<^verbatim>\<open>semitoneToFifthsMap\<close> at the numbers \<open>0 .. 11\<close>, where own properties decide.
  \<^verbatim>\<open>INSTRUMENT_TRANSPOSITIONS\<close> is read at a name the caller supplies; there the
  properties every object inherits from \<^verbatim>\<open>Object.prototype\<close> are part of the model
  (section \<open>Processing a file\<close>).
\<close>

text \<open>The remainder operator \<^verbatim>\<open>a % b\<close>: the result takes the sign of the dividend.\<close>

definition js_rem :: "int \<Rightarrow> int \<Rightarrow> int" where
  "js_rem a b = sgn a * (\<bar>a\<bar> mod \<bar>b\<bar>)"

text \<open>\<^verbatim>\<open>x || d\<close> on a number that may be undefined: \<open>undefined\<close> and \<open>0\<close> are falsy.\<close>

definition or_else :: "int option \<Rightarrow> int \<Rightarrow> int" where
  "or_else x d = (case x of None \<Rightarrow> d | Some v \<Rightarrow> if v = 0 then d else v)"

text \<open>\<^verbatim>\<open>s || d\<close> on a string: the empty string is falsy.\<close>

definition or_else_str :: "string \<Rightarrow> string \<Rightarrow> string" where
  "or_else_str s d = (if s = [] then d else s)"

text \<open>
  Reading \<^verbatim>\<open>xs[i]\<close> from an array literal with an integer \<open>i\<close>: outside
  \<open>0 .. length - 1\<close> (in particular for a negative index) the result is \<open>undefined\<close>.
\<close>

definition at_index :: "'a list \<Rightarrow> int \<Rightarrow> 'a option" where
  "at_index xs i = (if 0 \<le> i \<and> i < int (length xs) then Some (xs ! nat i) else None)"

text \<open>The property key a possibly undefined string is converted to.\<close>

definition property_key :: "string option \<Rightarrow> string" where
  "property_key s = (case s of None \<Rightarrow> ''undefined'' | Some t \<Rightarrow> t)"

section \<open>Pitch arithmetic\<close>

definition noteMap :: "(string \<times> int) list" where
  "noteMap = [(''C'', 0), (''D'', 2), (''E'', 4), (''F'', 5), (''G'', 7), (''A'', 9), (''B'', 11)]"

text \<open>
  \<^verbatim>\<open>noteToMidi(step, octave, alter = 0)\<close>. The default of \<open>alter\<close> applies when the
  argument is \<open>undefined\<close>.
\<close>

definition noteToMidi :: "string option \<Rightarrow> int \<Rightarrow> int option \<Rightarrow> int" where
  "noteToMidi step octave alter_arg =
     (let alter = (case alter_arg of None \<Rightarrow> 0 | Some a \<Rightarrow> a);
          baseNote = or_else (map_of noteMap (property_key step)) 0
      in (octave + 1) * 12 + baseNote + alter)"

text \<open>The object \<^verbatim>\<open>{ step, octave, alter }\<close> returned by \<^verbatim>\<open>midiToNote\<close>.\<close>

record note_rep =
  step :: "string option"
  octave :: int
  alter :: "int option"

definition noteNames :: "string list" where
  "noteNames = [''C'', ''C'', ''D'', ''D'', ''E'', ''F'', ''F'', ''G'', ''G'', ''A'', ''A'', ''B'']"

definition alterations :: "int list" where
  "alterations = [0, 1, 0, 1, 0, 0, 1, 0, 1, 0, 1, 0]"

text \<open>\<^verbatim>\<open>Math.floor(midiNote / 12)\<close> is \<^term>\<open>(div)\<close> on \<^typ>\<open>int\<close>, which rounds down.\<close>

definition midiToNote :: "int \<Rightarrow> note_rep" where
  "midiToNote midiNote =
     (let octave = midiNote div 12 - 1;
          noteIndex = js_rem midiNote 12
      in \<lparr>step = at_index noteNames noteIndex,
          octave = octave,
          alter = at_index alterations noteIndex\<rparr>)"

text \<open>The MIDI value of a decomposed note, \<^verbatim>\<open>noteToMidi(r.step, r.octave, r.alter)\<close>.\<close>

definition midiOfNote :: "note_rep \<Rightarrow> int" where
  "midiOfNote r = noteToMidi (step r) (octave r) (alter r)"

section \<open>Key signatures\<close>

definition semitoneToFifthsMap :: "(int \<times> int) list" where
  "semitoneToFifthsMap =
     [(0, 0), (1, 7), (2, 2), (3, -3), (4, 4), (5, -1), (6, 6), (7, 1),
      (8, -4), (9, 3), (10, -2), (11, 5), (12, 0)]"

definition transposeKeySignature :: "int \<Rightarrow> int \<Rightarrow> int" where
  "transposeKeySignature fifths semitones =
     (let normalizedSemitones = js_rem (js_rem semitones 12 + 12) 12;
          fifthsChange = or_else (map_of semitoneToFifthsMap normalizedSemitones) 0;
          newFifths = fifths + fifthsChange
      in max (-7) (min 7 newFifths))"

section \<open>Documents\<close>

text \<open>
  A MusicXML document as the processor reads it with \<^verbatim>\<open>querySelector\<close>. An element
  that may be missing is an option. The text of \<^verbatim>\<open>octave\<close>, \<^verbatim>\<open>alter\<close>,
  \<^verbatim>\<open>fifths\<close> and the other numeric elements is a decimal integer, as the generators
  of this repository and the transposer itself write it, so \<^verbatim>\<open>parseInt\<close> of the text
  is that integer; the text of \<^verbatim>\<open>step\<close> is any string. The order of the children
  of a \<^verbatim>\<open>pitch\<close> element is not represented.
\<close>

record Pitch =
  stepElement :: "string option"
  octaveElement :: "int option"
  alterElement :: "int option"

record Note =
  note_pitch :: "Pitch option"
  note_duration :: int
  note_type :: string

record Attributes =
  divisions :: int
  fifths :: "int option"
  beats :: int
  beat_type :: int
  clef_sign :: string
  clef_line :: int

record Measure =
  measure_attributes :: "Attributes option"
  measure_notes :: "Note list"

record Document =
  work_title :: string
  composer :: string
  measures :: "Measure list"

text \<open>\<^verbatim>\<open>xmlDoc.querySelectorAll('note')\<close>: the notes of all measures in document order.\<close>

definition allNotes :: "Document \<Rightarrow> Note list" where
  "allNotes d = concat (map measure_notes (measures d))"

section \<open>Transposition\<close>

datatype js_error = TypeError

text \<open>
  The body of \<^verbatim>\<open>pitches.forEach\<close> in \<^verbatim>\<open>transposeMusicXML\<close>. A pitch is rewritten
  only when it has both a step and an octave element. When \<^verbatim>\<open>midiToNote\<close> returns an
  undefined \<open>alter\<close>, the test \<^verbatim>\<open>alter !== 0\<close> succeeds and \<^verbatim>\<open>alter.toString()\<close>
  throws a TypeError in either branch. Assigning an undefined \<open>step\<close> to
  \<^verbatim>\<open>textContent\<close> would store the empty string.
\<close>

definition transposePitch :: "int \<Rightarrow> Pitch \<Rightarrow> js_error + Pitch" where
  "transposePitch semitones p =
     (case (stepElement p, octaveElement p) of
        (Some stepText, Some octaveText) \<Rightarrow>
          (let currentStep = or_else_str stepText ''C'';
               currentOctave = octaveText;
               currentAlter = (case alterElement p of None \<Rightarrow> 0 | Some a \<Rightarrow> a);
               midiNote = noteToMidi (Some currentStep) currentOctave (Some currentAlter);
               transposedMidi = midiNote + semitones;
               r = midiToNote transposedMidi
           in case alter r of
                None \<Rightarrow> Inl TypeError
              | Some a \<Rightarrow>
                  Inr \<lparr>stepElement = Some (case step r of None \<Rightarrow> [] | Some s \<Rightarrow> s),
                       octaveElement = Some (octave r),
                       alterElement = (if a \<noteq> 0 then Some a else None)\<rparr>)
      | _ \<Rightarrow> Inr p)"

text \<open>A \<^verbatim>\<open>forEach\<close> whose callback may throw: the first exception ends the loop.\<close>

fun for_each :: "('a \<Rightarrow> js_error + 'b) \<Rightarrow> 'a list \<Rightarrow> js_error + 'b list" where
  "for_each f [] = Inr []"
| "for_each f (x # xs) =
     (case f x of
        Inl e \<Rightarrow> Inl e
      | Inr y \<Rightarrow> (case for_each f xs of Inl e \<Rightarrow> Inl e | Inr ys \<Rightarrow> Inr (y # ys)))"

definition transposeNote :: "int \<Rightarrow> Note \<Rightarrow> js_error + Note" where
  "transposeNote semitones n =
     (case note_pitch n of
        None \<Rightarrow> Inr n
      | Some p \<Rightarrow>
          (case transposePitch semitones p of
             Inl e \<Rightarrow> Inl e
           | Inr p' \<Rightarrow> Inr (n\<lparr>note_pitch := Some p'\<rparr>)))"

definition transposeMeasure :: "int \<Rightarrow> Measure \<Rightarrow> js_error + Measure" where
  "transposeMeasure semitones m =
     (case for_each (transposeNote semitones) (measure_notes m) of
        Inl e \<Rightarrow> Inl e
      | Inr ns \<Rightarrow> Inr (m\<lparr>measure_notes := ns\<rparr>))"

text \<open>The body of \<^verbatim>\<open>keyElements.forEach\<close>: a key with a fifths element gets the new value.\<close>

definition transposeKey :: "int \<Rightarrow> Measure \<Rightarrow> Measure" where
  "transposeKey semitones m =
     m\<lparr>measure_attributes :=
         map_option
           (\<lambda>a. a\<lparr>fifths := map_option (\<lambda>currentFifths. transposeKeySignature currentFifths semitones) (fifths a)\<rparr>)
           (measure_attributes m)\<rparr>"

text \<open>
  \<^verbatim>\<open>transposeMusicXML(musicXML, semitones)\<close>: first every pitch, then every key. The
  source catches an exception only to log and rethrow it, so the promise is rejected
  (\<^term>\<open>Inl\<close>).
\<close>

definition transposeMusicXML :: "Document \<Rightarrow> int \<Rightarrow> js_error + Document" where
  "transposeMusicXML musicXML semitones =
     (case for_each (transposeMeasure semitones) (measures musicXML) of
        Inl e \<Rightarrow> Inl e
      | Inr ms \<Rightarrow> Inr (musicXML\<lparr>measures := map (transposeKey semitones) ms\<rparr>))"

section \<open>The MIDI encoder\<close>

text \<open>The MIDI number \<^verbatim>\<open>generateMIDI\<close> computes for a pitch element, with its fallbacks.\<close>

definition pitchMidi :: "Pitch \<Rightarrow> int" where
  "pitchMidi p =
     (let step' = (case stepElement p of None \<Rightarrow> ''C'' | Some t \<Rightarrow> or_else_str t ''C'');
          octave' = (case octaveElement p of None \<Rightarrow> 4 | Some v \<Rightarrow> v);
          alter' = (case alterElement p of None \<Rightarrow> 0 | Some a \<Rightarrow> a)
      in noteToMidi (Some step') octave' (Some alter'))"

text \<open>The numbers one iteration of \<^verbatim>\<open>notes.forEach\<close> pushes onto \<^verbatim>\<open>trackData\<close>.\<close>

definition noteEvents :: "Note \<Rightarrow> int list" where
  "noteEvents n =
     (case note_pitch n of
        None \<Rightarrow> []
      | Some p \<Rightarrow>
          (let midiNote = pitchMidi p
           in [0x00, 0x90, midiNote, 0x64] @ [0x83, 0x60] @ [0x80, midiNote, 0x00]))"

definition trackData :: "Note list \<Rightarrow> int list" where
  "trackData notes = concat (map noteEvents notes) @ [0x00, 0xFF, 0x2F, 0x00]"

text \<open>
  The bitwise operators work on the 32-bit two's complement value of their operands:
  \<^verbatim>\<open>a >> n\<close> is an arithmetic shift by \<open>n mod 32\<close>, \<^verbatim>\<open>a & b\<close> a bitwise and.
\<close>

definition js_sar :: "int \<Rightarrow> nat \<Rightarrow> int" where
  "js_sar a n = drop_bit (n mod 32) (signed_take_bit 31 a)"

definition js_and :: "int \<Rightarrow> int \<Rightarrow> int" where
  "js_and a b = signed_take_bit 31 a AND signed_take_bit 31 b"

definition midiData :: "Note list \<Rightarrow> int list" where
  "midiData notes =
     (let track = trackData notes;
          trackLength = int (length track)
      in [0x4D, 0x54, 0x68, 0x64] @ [0x00, 0x00, 0x00, 0x06] @ [0x00, 0x00] @ [0x00, 0x01]
         @ [0x00, 0x60]
         @ [0x4D, 0x54, 0x72, 0x6B]
         @ [js_and (js_sar trackLength 24) 0xFF, js_and (js_sar trackLength 16) 0xFF,
            js_and (js_sar trackLength 8) 0xFF, js_and trackLength 0xFF]
         @ track)"

text \<open>
  \<^verbatim>\<open>generateMIDI\<close> returns the blob of \<^verbatim>\<open>new Uint8Array(midiData)\<close>: every number is
  stored modulo 256, which is \<^term>\<open>word_of_int\<close> into \<^typ>\<open>8 word\<close>.
\<close>

definition generateMIDI :: "Document \<Rightarrow> 8 word list" where
  "generateMIDI musicXML = map word_of_int (midiData (allNotes musicXML))"

section \<open>Processing a file\<close>

definition INSTRUMENT_TRANSPOSITIONS :: "(string \<times> int) list" where
  "INSTRUMENT_TRANSPOSITIONS =
     [(''Bb Clarinet'', 2), (''Eb Alto Saxophone'', 9), (''Bb Tenor Saxophone'', 14),
      (''Eb Baritone Saxophone'', 21), (''Bb Soprano Saxophone'', 2), (''F French Horn'', 7),
      (''Bb Trumpet'', 2), (''Bb Flugelhorn'', 2), (''Bb Trombone'', 0), (''Eb Tuba'', 9),
      (''F Tuba'', 7), (''Bb Euphonium'', 2),
      (''Violin'', 0), (''Viola'', 0), (''Cello'', 0), (''Double Bass'', 0), (''Guitar'', 0),
      (''Bass Guitar'', 0)]"

record ProcessingResult =
  success :: bool
  musicXML :: "Document option"
  midiBlob :: "8 word list option"
  error :: "js_error option"

text \<open>The document of \<^verbatim>\<open>generateMockMusicXML\<close>.\<close>

definition mockNote :: "string \<Rightarrow> int \<Rightarrow> int option \<Rightarrow> int option \<Rightarrow> Note" where
  "mockNote st oc al du =
     (let alter' = (case al of None \<Rightarrow> None | Some a \<Rightarrow> if a = 0 then None else Some a);
          duration = or_else du 4;
          noteType = (if duration = 8 then ''half'' else ''quarter'')
      in \<lparr>note_pitch = Some \<lparr>stepElement = Some st, octaveElement = Some oc, alterElement = alter'\<rparr>,
          note_duration = duration, note_type = noteType\<rparr>)"

definition mockAttributes :: Attributes where
  "mockAttributes =
     \<lparr>divisions = 4, fifths = Some (-1), beats = 4, beat_type = 4,
      clef_sign = ''G'', clef_line = 2\<rparr>"

definition mockMeasures :: "Note list list" where
  "mockMeasures =
     [ [mockNote ''F'' 4 None None, mockNote ''F'' 4 None None, mockNote ''F'' 4 None None,
       mockNote ''G'' 4 None None],
      [mockNote ''A'' 4 None None, mockNote ''B'' 4 (Some (-1)) None, mockNote ''A'' 4 None None,
       mockNote ''G'' 4 None None],
      [mockNote ''F'' 4 None None, mockNote ''F'' 4 None None, mockNote ''G'' 4 None None,
       mockNote ''A'' 4 None None],
      [mockNote ''B'' 4 (Some (-1)) None, mockNote ''A'' 4 None None, mockNote ''G'' 4 None None,
       mockNote ''F'' 4 None None],
      [mockNote ''C'' 5 None None, mockNote ''C'' 5 None None, mockNote ''C'' 5 None None,
       mockNote ''D'' 5 None None],
      [mockNote ''E'' 5 (Some (-1)) None, mockNote ''D'' 5 None None, mockNote ''C'' 5 None None,
       mockNote ''B'' 4 (Some (-1)) None],
      [mockNote ''A'' 4 None None, mockNote ''B'' 4 (Some (-1)) None, mockNote ''C'' 5 None None,
       mockNote ''D'' 5 None None],
      [mockNote ''C'' 5 None (Some 8), mockNote ''B'' 4 (Some (-1)) (Some 8)] ]"

definition generateMockMusicXML :: Document where
  "generateMockMusicXML =
     \<lparr>work_title = ''Praise to the Lord'',
      composer = ''W.S. Bennett 1816-1875'',
      measures =
        map (\<lambda>(index, ns).
               \<lparr>measure_attributes = (if index = (0::nat) then Some mockAttributes else None),
                measure_notes = ns\<rparr>)
            (enumerate 0 mockMeasures)\<rparr>"

text \<open>
  A property read \<^verbatim>\<open>obj[key]\<close> on an object literal with number values gives the own
  property when there is one, and otherwise what \<^verbatim>\<open>Object.prototype\<close> provides under
  that name: a function (\<^verbatim>\<open>constructor\<close>, \<^verbatim>\<open>toString\<close>, ...) or, for
  \<^verbatim>\<open>__proto__\<close>, the prototype object itself. Only when neither exists is the result
  \<open>undefined\<close>. \<^term>\<open>Inherited\<close> stands for such a function or object: it is truthy and
  it is not a number.
\<close>

datatype js_value = Number int | Inherited

definition Object_prototype_names :: "string list" where
  "Object_prototype_names =
     [''constructor'', ''hasOwnProperty'', ''isPrototypeOf'', ''propertyIsEnumerable'',
      ''toLocaleString'', ''toString'', ''valueOf'', ''__defineGetter__'',
      ''__defineSetter__'', ''__lookupGetter__'', ''__lookupSetter__'', ''__proto__'']"

definition get_property :: "(string \<times> int) list \<Rightarrow> string \<Rightarrow> js_value option" where
  "get_property obj key =
     (case map_of obj key of
        Some v \<Rightarrow> Some (Number v)
      | None \<Rightarrow> if key \<in> set Object_prototype_names then Some Inherited else None)"

text \<open>\<^verbatim>\<open>x || 0\<close> on the result of such a read.\<close>

definition or_zero :: "js_value option \<Rightarrow> js_value" where
  "or_zero x =
     (case x of
        None \<Rightarrow> Number 0
      | Some (Number v) \<Rightarrow> if v = 0 then Number 0 else Number v
      | Some Inherited \<Rightarrow> Inherited)"

text \<open>
  \<^verbatim>\<open>transposeMusicXML\<close> when \<open>semitones\<close> is a function or object instead of a number.
  For a pitch with a step and an octave element, \<^verbatim>\<open>midiNote + semitones\<close> is then the
  concatenation of the number and the text of the function or object, a string that is
  not a numeral. In \<^verbatim>\<open>midiToNote\<close> both \<^verbatim>\<open>Math.floor(midiNote / 12) - 1\<close> and
  \<^verbatim>\<open>midiNote % 12\<close> are \<open>NaN\<close>, and \<^verbatim>\<open>noteNames[NaN]\<close> and
  \<^verbatim>\<open>alterations[NaN]\<close> are \<open>undefined\<close>. Back in the loop \<^verbatim>\<open>alter !== 0\<close> holds and
  \<^verbatim>\<open>alter.toString()\<close> throws a TypeError. A pitch without a step or an octave
  element is left alone, as for a number.
\<close>

definition transposeNote_nonNumber :: "Note \<Rightarrow> js_error + Note" where
  "transposeNote_nonNumber n =
     (case note_pitch n of
        None \<Rightarrow> Inr n
      | Some p \<Rightarrow>
          (case (stepElement p, octaveElement p) of
             (Some stepText, Some octaveText) \<Rightarrow> Inl TypeError
           | _ \<Rightarrow> Inr n))"

definition transposeMeasure_nonNumber :: "Measure \<Rightarrow> js_error + Measure" where
  "transposeMeasure_nonNumber m =
     (case for_each transposeNote_nonNumber (measure_notes m) of
        Inl e \<Rightarrow> Inl e
      | Inr ns \<Rightarrow> Inr (m\<lparr>measure_notes := ns\<rparr>))"

text \<open>
  In \<^verbatim>\<open>transposeKeySignature\<close> the remainder \<^verbatim>\<open>semitones % 12\<close> of a function or
  object is \<open>NaN\<close>, so is the normalised offset, the table read at \<open>NaN\<close> is \<open>undefined\<close>
  and \<^verbatim>\<open>|| 0\<close> makes the change 0: the fifths value is only clamped.
\<close>

definition transposeKey_nonNumber :: "Measure \<Rightarrow> Measure" where
  "transposeKey_nonNumber m =
     m\<lparr>measure_attributes :=
         map_option
           (\<lambda>a. a\<lparr>fifths := map_option (\<lambda>currentFifths. max (-7) (min 7 (currentFifths + 0)))
                                       (fifths a)\<rparr>)
           (measure_attributes m)\<rparr>"

definition transposeMusicXML_nonNumber :: "Document \<Rightarrow> js_error + Document" where
  "transposeMusicXML_nonNumber xml =
     (case for_each transposeMeasure_nonNumber (measures xml) of
        Inl e \<Rightarrow> Inl e
      | Inr ms \<Rightarrow> Inr (xml\<lparr>measures := map transposeKey_nonNumber ms\<rparr>))"

text \<open>
  \<^verbatim>\<open>transposeMusicXML\<close> at the values \<^verbatim>\<open>processFile\<close> can pass for \<open>semitones\<close>.
\<close>

definition transposeMusicXML_value :: "Document \<Rightarrow> js_value \<Rightarrow> js_error + Document" where
  "transposeMusicXML_value xml semitones =
     (case semitones of
        Number n \<Rightarrow> transposeMusicXML xml n
      | Inherited \<Rightarrow> transposeMusicXML_nonNumber xml)"

text \<open>
  An uploaded file is its bytes. \<^verbatim>\<open>processPDFToMusicXML\<close> reads the file and, once it
  is read, answers with the document of \<^verbatim>\<open>generateMockMusicXML\<close> whatever the bytes
  are; reading an uploaded file is taken to complete.
\<close>

type_synonym File = "8 word list"

definition processPDFToMusicXML :: "File \<Rightarrow> Document" where
  "processPDFToMusicXML file = generateMockMusicXML"

text \<open>
  \<^verbatim>\<open>processFile(file, targetInstrument)\<close>. The PDF blob comes from the external
  renderer, which catches its own errors, and is left out of the result. Any exception
  of the steps is caught and reported with \<open>success = false\<close>.
\<close>

definition processFile :: "File \<Rightarrow> string \<Rightarrow> ProcessingResult" where
  "processFile file targetInstrument =
     (let xml = processPDFToMusicXML file;
          semitones = or_zero (get_property INSTRUMENT_TRANSPOSITIONS targetInstrument)
      in case transposeMusicXML_value xml semitones of
           Inl e \<Rightarrow> \<lparr>success = False, musicXML = None, midiBlob = None, error = Some e\<rparr>
         | Inr transposedXML \<Rightarrow>
             \<lparr>success = True, musicXML = Some transposedXML,
              midiBlob = Some (generateMIDI transposedXML), error = None\<rparr>)"

section \<open>Tables and encodings of the specification\<close>

text \<open>The conventional fifths delta per semitone offset \<open>0 .. 11\<close>.\<close>

definition conventional_table :: "int list" where
  "conventional_table = [0, 7, 2, -3, 4, -1, 6, 1, -4, 3, -2, 5]"

definition conventional_delta :: "int \<Rightarrow> int" where
  "conventional_delta i = conventional_table ! nat i"

definition clamp_fifths :: "int \<Rightarrow> int" where
  "clamp_fifths x = (if x < -7 then -7 else if 7 < x then 7 else x)"

text \<open>The canonical sharp-preferring spelling per pitch class \<open>0 .. 11\<close>.\<close>

definition canonical_table :: "(string \<times> int) list" where
  "canonical_table =
     [(''C'', 0), (''C'', 1), (''D'', 0), (''D'', 1), (''E'', 0), (''F'', 0),
      (''F'', 1), (''G'', 0), (''G'', 1), (''A'', 0), (''A'', 1), (''B'', 0)]"

text \<open>The pitch elements of the notes that carry one, in order.\<close>

definition pitches :: "Note list \<Rightarrow> Pitch list" where
  "pitches ns = concat (map (\<lambda>n. case note_pitch n of None \<Rightarrow> [] | Some p \<Rightarrow> [p]) ns)"

text \<open>Reading a big-endian number from bytes.\<close>

definition be32 :: "8 word list \<Rightarrow> nat" where
  "be32 bs = foldl (\<lambda>acc b. acc * 256 + unat b) 0 bs"




section \<open>Auxiliary notions and sample documents\<close>

text \<open>The four length bytes of the track chunk, as \<^const>\<open>midiData\<close> computes them.\<close>

definition lengthBytes :: "int \<Rightarrow> int list" where
  "lengthBytes trackLength =
     [js_and (js_sar trackLength 24) 0xFF, js_and (js_sar trackLength 16) 0xFF,
      js_and (js_sar trackLength 8) 0xFF, js_and trackLength 0xFF]"

text \<open>The nine bytes of one pitched note in the output.\<close>

definition noteBytes :: "Pitch \<Rightarrow> 8 word list" where
  "noteBytes p =
     [0x00, 0x90, word_of_int (pitchMidi p), 0x64, 0x83, 0x60, 0x80,
      word_of_int (pitchMidi p), 0x00]"

text \<open>C4, D4, E4, F4 as quarter notes, and the same pitches with other durations.\<close>

definition fourNotes :: Document where
  "fourNotes =
     \<lparr>work_title = [], composer = [],
      measures =
        [\<lparr>measure_attributes = None,
          measure_notes = [mockNote ''C'' 4 None None, mockNote ''D'' 4 None None,
                           mockNote ''E'' 4 None None, mockNote ''F'' 4 None None]\<rparr>]\<rparr>"

definition fourNotesLong :: Document where
  "fourNotesLong =
     \<lparr>work_title = [], composer = [],
      measures =
        [\<lparr>measure_attributes = None,
          measure_notes = [mockNote ''C'' 4 None (Some 8), mockNote ''D'' 4 None (Some 16),
                           mockNote ''E'' 4 None (Some 1), mockNote ''F'' 4 None (Some 2)]\<rparr>]\<rparr>"

text \<open>What transposition is claimed to leave alone in a note and in the attributes.\<close>

definition note_frame :: "Note \<Rightarrow> int \<times> string" where
  "note_frame n = (note_duration n, note_type n)"

definition attributes_frame :: "Attributes \<Rightarrow> int \<times> int \<times> int \<times> string \<times> int" where
  "attributes_frame a = (divisions a, beats a, beat_type a, clef_sign a, clef_line a)"

text \<open>The spelling (step, alter, octave) of a pitch element, read with the fallbacks of the code.\<close>

definition spelling :: "Pitch \<Rightarrow> string \<times> int \<times> int" where
  "spelling p =
     ((case stepElement p of None \<Rightarrow> ''C'' | Some t \<Rightarrow> or_else_str t ''C''),
      (case alterElement p of None \<Rightarrow> 0 | Some a \<Rightarrow> a),
      (case octaveElement p of None \<Rightarrow> 4 | Some v \<Rightarrow> v))"

text \<open>The canonical spelling of a MIDI value.\<close>

definition canonical_spelling :: "int \<Rightarrow> string \<times> int \<times> int" where
  "canonical_spelling m =
     (fst (canonical_table ! nat (m mod 12)), snd (canonical_table ! nat (m mod 12)), m div 12 - 1)"

text \<open>A pitch is rewritten when it has a step and an octave element.\<close>

definition rewritten :: "Pitch \<Rightarrow> bool" where
  "rewritten p = (stepElement p \<noteq> None \<and> octaveElement p \<noteq> None)"

definition transposedPitch :: "int \<Rightarrow> Pitch \<Rightarrow> Pitch" where
  "transposedPitch semitones p =
     (if rewritten p then
        (let m = pitchMidi p + semitones;
             a = snd (canonical_table ! nat (m mod 12))
         in \<lparr>stepElement = Some (fst (canonical_table ! nat (m mod 12))),
             octaveElement = Some (m div 12 - 1),
             alterElement = (if a \<noteq> 0 then Some a else None)\<rparr>)
      else p)"

definition transposedNote :: "int \<Rightarrow> Note \<Rightarrow> Note" where
  "transposedNote semitones n = n\<lparr>note_pitch := map_option (transposedPitch semitones) (note_pitch n)\<rparr>"

definition transposedMeasure :: "int \<Rightarrow> Measure \<Rightarrow> Measure" where
  "transposedMeasure semitones m = m\<lparr>measure_notes := map (transposedNote semitones) (measure_notes m)\<rparr>"



text \<open>A one-measure document in F major and its transposition up a whole tone.\<close>

definition sampleDocument :: Document where
  "sampleDocument =
     \<lparr>work_title = ''Sample'', composer = ''Anonymous'',
      measures =
        [\<lparr>measure_attributes = Some mockAttributes,
          measure_notes = [mockNote ''C'' 4 None None, mockNote ''B'' 4 (Some (-1)) (Some 8)]\<rparr>]\<rparr>"

definition sampleTransposed :: Document where
  "sampleTransposed =
     \<lparr>work_title = ''Sample'', composer = ''Anonymous'',
      measures =
        [\<lparr>measure_attributes = Some (mockAttributes\<lparr>fifths := Some 1\<rparr>),
          measure_notes = [mockNote ''D'' 4 None None, mockNote ''C'' 5 None (Some 8)]\<rparr>]\<rparr>"

section \<open>Pitch arithmetic: results\<close>

lemma js_rem_nonneg: "0 \<le> a \<Longrightarrow> js_rem a 12 = a mod 12"
  by (cases "a = 0") (simp_all add: js_rem_def)

lemma js_rem_neg: "a < 0 \<Longrightarrow> js_rem a 12 = - ((- a) mod 12)"
  by (simp add: js_rem_def)

lemma below_12_cases:
  fixes r :: int
  assumes "0 \<le> r" "r < 12"
  shows "r = 0 \<or> r = 1 \<or> r = 2 \<or> r = 3 \<or> r = 4 \<or> r = 5 \<or> r = 6 \<or> r = 7 \<or> r = 8
         \<or> r = 9 \<or> r = 10 \<or> r = 11"
  using assms by arith

lemma midiToNote_table:
  assumes "0 \<le> r" "r < 12"
  shows "at_index noteNames r = Some (fst (canonical_table ! nat r)) \<and>
         at_index alterations r = Some (snd (canonical_table ! nat r))"
  using below_12_cases [OF assms]
  by (elim disjE)
     (simp_all add: at_index_def noteNames_def alterations_def canonical_table_def)

lemma midiToNote_nonneg:
  assumes "0 \<le> m"
  shows "midiToNote m =
           \<lparr>step = Some (fst (canonical_table ! nat (m mod 12))),
            octave = m div 12 - 1,
            alter = Some (snd (canonical_table ! nat (m mod 12)))\<rparr>"
proof -
  have rng: "0 \<le> m mod 12" "m mod 12 < 12" by simp_all
  show ?thesis
    using midiToNote_table [OF rng] assms
    by (simp add: midiToNote_def js_rem_nonneg Let_def)
qed

text \<open>
  C5. For every nonnegative MIDI value \<open>m\<close>, \<open>midiToNote m\<close> has the step and alter of the
  canonical sharp-preferring table at index \<open>m mod 12\<close> and the octave
  \<open>floor (m / 12) - 1\<close>.
\<close>

theorem midiToNote_canonical:
  assumes "0 \<le> m"
  shows "midiToNote m =
           \<lparr>step = Some (fst (canonical_table ! nat (m mod 12))),
            octave = m div 12 - 1,
            alter = Some (snd (canonical_table ! nat (m mod 12)))\<rparr>"
  using assms by (rule midiToNote_nonneg)

theorem midiToNote_canonical_witness:
  "(0::int) \<le> 70 \<and> midiToNote 70 = \<lparr>step = Some ''A'', octave = 4, alter = Some 1\<rparr>"
  using midiToNote_canonical [of 70] by (simp add: canonical_table_def)

text \<open>Each entry of the canonical table has the pitch class of its index.\<close>

lemma canonical_value:
  assumes "0 \<le> r" "r < 12"
  shows "or_else (map_of noteMap (fst (canonical_table ! nat r))) 0
           + snd (canonical_table ! nat r) = r"
  using below_12_cases [OF assms]
  by (elim disjE) (simp_all add: or_else_def noteMap_def canonical_table_def)

lemma midiOfNote_fields:
  "midiOfNote \<lparr>step = Some st, octave = oc, alter = Some a\<rparr>
     = (oc + 1) * 12 + or_else (map_of noteMap st) 0 + a"
  by (simp add: midiOfNote_def noteToMidi_def property_key_def)

text \<open>On nonnegative values decomposition followed by composition is the identity.\<close>

lemma midi_roundtrip_nonneg:
  assumes "0 \<le> m"
  shows "midiOfNote (midiToNote m) = m"
proof -
  have rng: "0 \<le> m mod 12" "m mod 12 < 12" by simp_all
  have "midiOfNote (midiToNote m) = (m div 12 - 1 + 1) * 12 +
      or_else (map_of noteMap (fst (canonical_table ! nat (m mod 12)))) 0
       + snd (canonical_table ! nat (m mod 12))"
    unfolding midiToNote_nonneg [OF assms] midiOfNote_fields ..
  also have "\<dots> = m div 12 * 12
      + (or_else (map_of noteMap (fst (canonical_table ! nat (m mod 12)))) 0
         + snd (canonical_table ! nat (m mod 12)))"
    by (simp only: diff_add_cancel add.assoc)
  also have "\<dots> = m div 12 * 12 + m mod 12"
    by (simp only: canonical_value [OF rng])
  also have "\<dots> = m" by simp
  finally show ?thesis .
qed

text \<open>
  C1. The value round trip
  \<open>noteToMidi (midiToNote (noteToMidi (step, octave, alter) + semitones))
     = noteToMidi (step, octave, alter) + semitones\<close>
  is claimed for every pitch and every integer \<open>semitones\<close>, negative results included.
  At C0 (MIDI 12) transposed by \<open>-13\<close> the sum is \<open>-1\<close>; the remainder \<open>-1 % 12\<close> is
  \<open>-1\<close>, both table reads are undefined, and composing the decomposed note gives \<open>-12\<close>.
\<close>

theorem value_roundtrip_below_zero:
  "noteToMidi (Some ''C'') 0 (Some 0) + (-13) = -1
   \<and> midiToNote (noteToMidi (Some ''C'') 0 (Some 0) + (-13))
       = \<lparr>step = None, octave = -2, alter = None\<rparr>
   \<and> midiOfNote (midiToNote (noteToMidi (Some ''C'') 0 (Some 0) + (-13))) = -12"
  by code_simp

text \<open>
  C4, as amended. Transposing (C, 0, 4) by \<open>+2\<close> gives (D, 0, 4). B flat 4, that is
  (B, \<open>-1\<close>, 4), has MIDI value 70; transposed by \<open>+9\<close> it has value 79, which decomposes
  to (G, 0, 5): G natural in octave 5, not G sharp.
\<close>

theorem concrete_scenario:
  "midiToNote (noteToMidi (Some ''C'') 4 (Some 0) + 2)
     = \<lparr>step = Some ''D'', octave = 4, alter = Some 0\<rparr>
   \<and> noteToMidi (Some ''B'') 4 (Some (-1)) = 70
   \<and> noteToMidi (Some ''B'') 4 (Some (-1)) + 9 = 79
   \<and> midiToNote (noteToMidi (Some ''B'') 4 (Some (-1)) + 9)
       = \<lparr>step = Some ''G'', octave = 5, alter = Some 0\<rparr>
   \<and> transposePitch 2 \<lparr>stepElement = Some ''C'', octaveElement = Some 4, alterElement = None\<rparr>
       = Inr \<lparr>stepElement = Some ''D'', octaveElement = Some 4, alterElement = None\<rparr>
   \<and> transposePitch 9
         \<lparr>stepElement = Some ''B'', octaveElement = Some 4, alterElement = Some (-1)\<rparr>
       = Inr \<lparr>stepElement = Some ''G'', octaveElement = Some 5, alterElement = None\<rparr>"
  by code_simp

text \<open>C4 as stated, with (G, \<open>+1\<close>, 5) as the second result, does not hold.\<close>

theorem concrete_scenario_counterexample:
  "\<not> (midiToNote (noteToMidi (Some ''C'') 4 (Some 0) + 2)
        = \<lparr>step = Some ''D'', octave = 4, alter = Some 0\<rparr>
      \<and> midiToNote (noteToMidi (Some ''B'') 4 (Some (-1)) + 9)
          = \<lparr>step = Some ''G'', octave = 5, alter = Some 1\<rparr>)"
  by code_simp

section \<open>Key signatures: results\<close>

lemma normalized_semitones: "js_rem (js_rem s 12 + 12) 12 = s mod 12"
proof (cases "0 \<le> s")
  case True
  then have "js_rem s 12 + 12 = s mod 12 + 12" by (simp add: js_rem_nonneg)
  moreover have "0 \<le> s mod 12 + 12" by simp
  ultimately show ?thesis by (simp add: js_rem_nonneg)
next
  case False
  then have neg: "s < 0" by simp
  have r: "js_rem s 12 = - ((- s) mod 12)" using neg by (rule js_rem_neg)
  have b: "0 \<le> (- s) mod 12" "(- s) mod 12 < 12" by simp_all
  have "0 \<le> - ((- s) mod 12) + 12" using b by linarith
  then have "js_rem (js_rem s 12 + 12) 12 = (- ((- s) mod 12) + 12) mod 12"
    unfolding r by (rule js_rem_nonneg)
  also have "\<dots> = s mod 12"
    by (simp add: mod_minus_eq)
  finally show ?thesis .
qed

lemma fifthsChange_table:
  assumes "0 \<le> r" "r < 12"
  shows "or_else (map_of semitoneToFifthsMap r) 0 = conventional_delta r"
  using below_12_cases [OF assms]
  by (elim disjE)
     (simp_all add: or_else_def semitoneToFifthsMap_def conventional_delta_def
        conventional_table_def)

text \<open>
  C3. For all integers \<open>f\<close> and \<open>s\<close>, the transposed key signature is
  \<open>clamp (f + delta, -7, 7)\<close> with \<open>delta\<close> the conventional table value at index
  \<open>((s mod 12) + 12) mod 12\<close>; so for \<open>f\<close> in \<open>[-7, 7]\<close> the result lies in \<open>[-7, 7]\<close>.
  The index is the same whether \<open>mod\<close> is read as the remainder of JavaScript or as the
  modulus that rounds down.
\<close>

theorem transposeKeySignature_conventional:
  "transposeKeySignature f s = clamp_fifths (f + conventional_delta (((s mod 12) + 12) mod 12))
   \<and> js_rem (js_rem s 12 + 12) 12 = ((s mod 12) + 12) mod 12
   \<and> (-7 \<le> f \<and> f \<le> 7 \<longrightarrow>
        -7 \<le> transposeKeySignature f s \<and> transposeKeySignature f s \<le> 7)"
proof -
  have idx: "((s mod 12) + 12) mod 12 = s mod 12" by simp
  have rng: "0 \<le> s mod 12" "s mod 12 < 12" by simp_all
  have "transposeKeySignature f s = max (-7) (min 7 (f + conventional_delta (s mod 12)))"
    by (simp add: transposeKeySignature_def normalized_semitones fifthsChange_table [OF rng])
  then show ?thesis
    unfolding idx by (simp add: clamp_fifths_def normalized_semitones)
qed

theorem transposeKeySignature_conventional_witness:
  "(-7::int) \<le> 0 \<and> (0::int) \<le> 7
   \<and> transposeKeySignature 0 2 = 2 \<and> transposeKeySignature (-7) 3 = -7
   \<and> transposeKeySignature 6 (-13) = 7"
  using transposeKeySignature_conventional [of 0 2]
    transposeKeySignature_conventional [of "-7" 3]
    transposeKeySignature_conventional [of 6 "-13"]
  by (simp add: clamp_fifths_def conventional_delta_def conventional_table_def)

section \<open>The MIDI encoder: results\<close>

lemma js_and_ff: "js_and a 0xFF = a mod 256"
proof -
  have "signed_take_bit 31 (255::int) = 255" by simp
  then have "js_and a 0xFF = signed_take_bit 31 a AND mask 8"
    by (simp add: js_and_def mask_eq_exp_minus_1)
  also have "\<dots> = take_bit 8 (signed_take_bit 31 a)"
    by (simp add: take_bit_eq_mask)
  also have "\<dots> = take_bit 8 a"
    by (simp add: take_bit_signed_take_bit)
  finally show ?thesis by (simp add: take_bit_eq_mod)
qed

lemma js_sar_small:
  assumes "k \<le> 24"
  shows "js_sar a k mod 256 = (a div 2 ^ k) mod 256"
proof -
  have k32: "k mod 32 = k" using assms by simp
  have "js_sar a k mod 256 = take_bit 8 (drop_bit k (signed_take_bit 31 a))"
    by (simp add: js_sar_def k32 take_bit_eq_mod)
  also have "\<dots> = drop_bit k (take_bit (8 + k) (signed_take_bit 31 a))"
    by (simp add: take_bit_drop_bit)
  also have "take_bit (8 + k) (signed_take_bit 31 a) = take_bit (8 + k) a"
    using assms by (simp add: take_bit_signed_take_bit)
  also have "drop_bit k (take_bit (8 + k) a) = take_bit 8 (drop_bit k a)"
    by (simp add: take_bit_drop_bit)
  finally show ?thesis by (simp add: take_bit_eq_mod drop_bit_eq_div)
qed

lemma four_bytes:
  fixes a :: int
  assumes "0 \<le> a" "a < 2 ^ 32"
  shows "((a div 2 ^ 24) mod 256) * 2 ^ 24 + ((a div 2 ^ 16) mod 256) * 2 ^ 16
         + ((a div 2 ^ 8) mod 256) * 2 ^ 8 + a mod 256 = a"
proof -
  define b where "b = a div 256"
  define c where "c = b div 256"
  define d where "d = c div 256"
  have a: "a = 256 * b + a mod 256" by (simp add: b_def)
  have b: "b = 256 * c + b mod 256" by (simp add: c_def)
  have c: "c = 256 * d + c mod 256" by (simp add: d_def)
  have c16: "a div 2 ^ 16 = c"
    using zdiv_zmult2_eq [of 256 a 256] by (simp add: b_def c_def)
  have d24: "a div 2 ^ 24 = d"
    using zdiv_zmult2_eq [of 256 a 65536] c16 by (simp add: d_def)
  have "d < 256" "0 \<le> d" using assms unfolding d24 [symmetric] by simp_all
  then have d: "d mod 256 = d" by simp
  have "a div 2 ^ 8 = b" by (simp add: b_def)
  then show ?thesis
    unfolding c16 d24 d using a b c by simp
qed

lemma lengthBytes_eq:
  "lengthBytes a = [(a div 2 ^ 24) mod 256, (a div 2 ^ 16) mod 256, (a div 2 ^ 8) mod 256, a mod 256]"
proof -
  have "js_and (js_sar a k) 0xFF = (a div 2 ^ k) mod 256" if "k \<le> 24" for k
    using js_sar_small [OF that, of a] by (simp only: js_and_ff)
  from this [of 24] this [of 16] this [of 8] show ?thesis
    by (simp only: lengthBytes_def js_and_ff)
qed

lemma unat_byte:
  assumes "0 \<le> x" "x < 256"
  shows "int (unat (word_of_int x :: 8 word)) = x"
proof -
  have "uint (word_of_int x :: 8 word) = take_bit 8 x"
    by (simp only: uint_word_of_int_eq) simp
  also have "\<dots> = x" using assms by (simp add: take_bit_int_eq_self)
  finally show ?thesis by (simp only: of_nat_unat) 
qed

lemma be32_four:
  "int (be32 [b3, b2, b1, b0]) = int (unat b3) * 2 ^ 24 + int (unat b2) * 2 ^ 16 + int (unat b1) * 2 ^ 8 + int (unat b0)"
  by (simp add: be32_def)

lemma be32_lengthBytes:
  assumes "0 \<le> a" "a < 2 ^ 32"
  shows "be32 (map word_of_int (lengthBytes a)) = nat a"
proof -
  have u: "int (unat (word_of_int (y mod 256) :: 8 word)) = y mod 256" for y :: int
    by (rule unat_byte) simp_all
  have "int (be32 (map word_of_int (lengthBytes a)))
      = ((a div 2 ^ 24) mod 256) * 2 ^ 24 + ((a div 2 ^ 16) mod 256) * 2 ^ 16
         + ((a div 2 ^ 8) mod 256) * 2 ^ 8 + a mod 256"
    unfolding lengthBytes_eq list.map be32_four u ..
  then have "int (be32 (map word_of_int (lengthBytes a))) = a"
    using four_bytes [OF assms] by (simp only:)
  then show ?thesis by simp
qed


lemma midiData_layout:
  "midiData ns =
     [0x4D, 0x54, 0x68, 0x64, 0x00, 0x00, 0x00, 0x06, 0x00, 0x00, 0x00, 0x01, 0x00, 0x60]
     @ [0x4D, 0x54, 0x72, 0x6B]
     @ lengthBytes (int (length (trackData ns)))
     @ trackData ns"
  by (simp add: midiData_def Let_def lengthBytes_def)

lemma events_bytes:
  "map word_of_int (concat (map noteEvents ns)) = concat (map noteBytes (pitches ns))"
proof (induction ns)
  case Nil
  show ?case by (simp add: pitches_def)
next
  case (Cons n ns)
  have step: "pitches (n # ns) = (case note_pitch n of None \<Rightarrow> [] | Some p \<Rightarrow> [p]) @ pitches ns"
    by (simp add: pitches_def)
  show ?case
  proof (cases "note_pitch n")
    case None
    then show ?thesis using Cons.IH by (simp add: step noteEvents_def)
  next
    case (Some p)
    then show ?thesis using Cons.IH by (simp add: step noteEvents_def noteBytes_def Let_def)
  qed
qed

lemma generateMIDI_layout:
  "generateMIDI D =
     [0x4D, 0x54, 0x68, 0x64, 0x00, 0x00, 0x00, 0x06, 0x00, 0x00, 0x00, 0x01, 0x00, 0x60]
     @ [0x4D, 0x54, 0x72, 0x6B]
     @ map word_of_int (lengthBytes (int (length (trackData (allNotes D)))))
     @ (concat (map noteBytes (pitches (allNotes D))) @ [0x00, 0xFF, 0x2F, 0x00])"
proof -
  have "map word_of_int (trackData (allNotes D))
          = concat (map noteBytes (pitches (allNotes D))) @ [0x00, 0xFF, 0x2F, 0x00 :: 8 word]"
    unfolding trackData_def map_append events_bytes by simp
  then show ?thesis
    unfolding generateMIDI_def midiData_layout map_append by simp
qed

lemma length_lengthBytes: "length (lengthBytes a) = 4"
  by (simp add: lengthBytes_def)

lemma generateMIDI_track:
  "drop 22 (generateMIDI D) = concat (map noteBytes (pitches (allNotes D))) @ [0x00, 0xFF, 0x2F, 0x00]"
  unfolding generateMIDI_layout by (simp add: length_lengthBytes)

lemma generateMIDI_length:
  "length (generateMIDI D) = 22 + length (trackData (allNotes D))"
  by (simp add: generateMIDI_def midiData_layout length_lengthBytes)

text \<open>
  C2. For every input note sequence the output begins with the 14 header bytes
  \<open>4D 54 68 64 00 00 00 06 00 00 00 01 00 60\<close>, the four-byte big-endian length declared
  by the track chunk is the number of bytes that follow it, end-of-track marker included,
  and the stream ends with \<open>00 FF 2F 00\<close>. The array \<^verbatim>\<open>midiData\<close> is a JavaScript
  array, so its length is below \<open>2 ^ 32\<close>.
\<close>

theorem generateMIDI_structure:
  assumes "length (generateMIDI D) < 2 ^ 32"
  shows "take 14 (generateMIDI D)
           = [0x4D, 0x54, 0x68, 0x64, 0x00, 0x00, 0x00, 0x06, 0x00, 0x00, 0x00, 0x01, 0x00, 0x60]
         \<and> take 4 (drop 14 (generateMIDI D)) = [0x4D, 0x54, 0x72, 0x6B]
         \<and> be32 (take 4 (drop 18 (generateMIDI D))) = length (drop 22 (generateMIDI D))
         \<and> drop (length (generateMIDI D) - 4) (generateMIDI D) = [0x00, 0xFF, 0x2F, 0x00]"
proof -
  let ?n = "length (trackData (allNotes D))"
  let ?L = "map word_of_int (lengthBytes (int ?n)) :: 8 word list"
  have header: "take 14 (generateMIDI D)
           = [0x4D, 0x54, 0x68, 0x64, 0x00, 0x00, 0x00, 0x06, 0x00, 0x00, 0x00, 0x01, 0x00, 0x60]"
    unfolding generateMIDI_layout by simp
  have tag: "take 4 (drop 14 (generateMIDI D)) = [0x4D, 0x54, 0x72, 0x6B]"
    unfolding generateMIDI_layout by simp
  have "take 4 (drop 18 (generateMIDI D)) = ?L"
    unfolding generateMIDI_layout by (simp add: length_lengthBytes)
  moreover have "int ?n < 2 ^ 32"
    using assms unfolding generateMIDI_length by simp
  then have "be32 ?L = nat (int ?n)"
    by (intro be32_lengthBytes) simp_all
  moreover have "length (drop 22 (generateMIDI D)) = ?n"
    by (simp add: generateMIDI_length)
  ultimately have len: "be32 (take 4 (drop 18 (generateMIDI D))) = length (drop 22 (generateMIDI D))"
    by simp
  obtain pre where pre: "generateMIDI D = pre @ [0x00, 0xFF, 0x2F, 0x00]"
    unfolding generateMIDI_layout by (metis append.assoc)
  have "drop (length (generateMIDI D) - 4) (generateMIDI D) = [0x00, 0xFF, 0x2F, 0x00]"
    unfolding pre by simp
  with header tag len show ?thesis by simp
qed

theorem generateMIDI_structure_witness:
  "length (generateMIDI fourNotes) < 2 ^ 32
   \<and> take 14 (generateMIDI fourNotes)
       = [0x4D, 0x54, 0x68, 0x64, 0x00, 0x00, 0x00, 0x06, 0x00, 0x00, 0x00, 0x01, 0x00, 0x60]
   \<and> be32 (take 4 (drop 18 (generateMIDI fourNotes))) = 40
   \<and> length (drop 22 (generateMIDI fourNotes)) = 40
   \<and> drop 58 (generateMIDI fourNotes) = [0x00, 0xFF, 0x2F, 0x00]"
proof -
  have len: "length (generateMIDI fourNotes) = 62" by code_simp
  then have h: "length (generateMIDI fourNotes) < 2 ^ 32" by simp
  have "length (drop 22 (generateMIDI fourNotes)) = 40" using len by simp
  with h len generateMIDI_structure [OF h] show ?thesis by simp
qed




lemma map_noteEvents_cong:
  assumes "map note_pitch ns1 = map note_pitch ns2"
  shows "map noteEvents ns1 = map noteEvents ns2"
proof -
  define g :: "Pitch option \<Rightarrow> int list" where
    "g po = (case po of None \<Rightarrow> []
             | Some p \<Rightarrow> [0x00, 0x90, pitchMidi p, 0x64, 0x83, 0x60, 0x80, pitchMidi p, 0x00])" for po
  have fact: "noteEvents = g \<circ> note_pitch"
    by (rule ext) (simp add: noteEvents_def g_def Let_def split: option.split)
  have "map noteEvents ns1 = map g (map note_pitch ns1)"
    by (simp only: fact map_map)
  also have "\<dots> = map g (map note_pitch ns2)"
    by (simp only: assms)
  also have "\<dots> = map noteEvents ns2"
    by (simp only: fact map_map)
  finally show ?thesis .
qed

lemma nth_blocks:
  assumes "\<forall>x\<in>set xs. length (f x) = 9" "i < length xs" "j < 9"
  shows "(concat (map f xs) @ ys) ! (9 * i + j) = f (xs ! i) ! j"
  using assms
proof (induction xs arbitrary: i)
  case Nil
  then show ?case by simp
next
  case (Cons x xs)
  have lx: "length (f x) = 9" using Cons.prems(1) by simp
  show ?case
  proof (cases i)
    case 0
    then show ?thesis using lx Cons.prems(3) by (simp add: nth_append)
  next
    case (Suc k)
    have "9 * i + j = length (f x) + (9 * k + j)" using Suc lx by simp
    then have "(concat (map f (x # xs)) @ ys) ! (9 * i + j) = (concat (map f xs) @ ys) ! (9 * k + j)"
      by (simp add: nth_append)
    also have "\<dots> = f (xs ! k) ! j"
      using Cons.prems Suc by (intro Cons.IH) simp_all
    finally show ?thesis using Suc by simp
  qed
qed

text \<open>
  C10. Two note sequences with the same pitch data, note by note, are encoded to the same
  bytes whatever their durations and types; every Note-Off status byte \<open>80\<close> is preceded
  by the two delta-time bytes \<open>83 60\<close>.
\<close>

theorem generateMIDI_ignores_durations:
  assumes "map note_pitch (allNotes D1) = map note_pitch (allNotes D2)"
  shows "generateMIDI D1 = generateMIDI D2
         \<and> (\<forall>i < length (pitches (allNotes D1)).
               generateMIDI D1 ! (22 + 9 * i + 4) = 0x83
             \<and> generateMIDI D1 ! (22 + 9 * i + 5) = 0x60
             \<and> generateMIDI D1 ! (22 + 9 * i + 6) = 0x80)"
proof -
  have "trackData (allNotes D1) = trackData (allNotes D2)"
    unfolding trackData_def using map_noteEvents_cong [OF assms] by simp
  then have same: "generateMIDI D1 = generateMIDI D2"
    by (simp add: generateMIDI_def midiData_def)
  have off: "generateMIDI D1 ! (22 + 9 * i + j) = noteBytes (pitches (allNotes D1) ! i) ! j"
    if "i < length (pitches (allNotes D1))" "j < 9" for i j
  proof -
    have "22 \<le> length (generateMIDI D1)" by (simp add: generateMIDI_length)
    then have "generateMIDI D1 ! (22 + (9 * i + j)) = drop 22 (generateMIDI D1) ! (9 * i + j)"
      by simp
    also have "\<dots> = noteBytes (pitches (allNotes D1) ! i) ! j"
      unfolding generateMIDI_track using that
      by (intro nth_blocks) (simp_all add: noteBytes_def)
    finally show ?thesis by (simp add: add.assoc)
  qed
  have "generateMIDI D1 ! (22 + 9 * i + 4) = 0x83
      \<and> generateMIDI D1 ! (22 + 9 * i + 5) = 0x60
      \<and> generateMIDI D1 ! (22 + 9 * i + 6) = 0x80"
    if "i < length (pitches (allNotes D1))" for i
    using off [OF that, of 4] off [OF that, of 5] off [OF that, of 6]
    by (simp add: noteBytes_def)
  with same show ?thesis by blast
qed

theorem generateMIDI_ignores_durations_witness:
  "map note_pitch (allNotes fourNotes) = map note_pitch (allNotes fourNotesLong)
   \<and> map note_duration (allNotes fourNotes) \<noteq> map note_duration (allNotes fourNotesLong)
   \<and> generateMIDI fourNotes = generateMIDI fourNotesLong
   \<and> (3::nat) < length (pitches (allNotes fourNotes))
   \<and> generateMIDI fourNotes ! 53 = 0x83 \<and> generateMIDI fourNotes ! 54 = 0x60
   \<and> generateMIDI fourNotes ! 55 = 0x80"
proof -
  have h: "map note_pitch (allNotes fourNotes) = map note_pitch (allNotes fourNotesLong)"
    by code_simp
  have d: "map note_duration (allNotes fourNotes) \<noteq> map note_duration (allNotes fourNotesLong)"
    by code_simp
  have l: "(3::nat) < length (pitches (allNotes fourNotes))" by code_simp
  from generateMIDI_ignores_durations [OF h]
  have same: "generateMIDI fourNotes = generateMIDI fourNotesLong"
    and idx: "\<forall>i < length (pitches (allNotes fourNotes)).
               generateMIDI fourNotes ! (22 + 9 * i + 4) = 0x83
             \<and> generateMIDI fourNotes ! (22 + 9 * i + 5) = 0x60
             \<and> generateMIDI fourNotes ! (22 + 9 * i + 6) = 0x80"
    by blast+
  from idx l have "generateMIDI fourNotes ! (22 + 9 * 3 + 4) = 0x83
      \<and> generateMIDI fourNotes ! (22 + 9 * 3 + 5) = 0x60
      \<and> generateMIDI fourNotes ! (22 + 9 * 3 + 6) = 0x80"
    by blast
  then have bytes: "generateMIDI fourNotes ! 53 = 0x83 \<and> generateMIDI fourNotes ! 54 = 0x60
      \<and> generateMIDI fourNotes ! 55 = 0x80"
    by simp
  from h d same l bytes show ?thesis by blast
qed

section \<open>Transposition of documents: results\<close>

lemma for_each_Inr_iff:
  "for_each f xs = Inr ys \<longleftrightarrow> list_all2 (\<lambda>x y. f x = Inr y) xs ys"
proof (induction xs arbitrary: ys)
  case Nil
  show ?case by auto
next
  case (Cons x xs)
  show ?case
  proof (cases "f x")
    case (Inl e)
    then show ?thesis by (auto simp: list_all2_Cons1)
  next
    case (Inr y)
    show ?thesis
    proof (cases "for_each f xs")
      case (Inl e)
      then have "\<not> list_all2 (\<lambda>x y. f x = Inr y) xs zs" for zs
        using Cons.IH [of zs] by simp
      then show ?thesis using Inl Inr by (auto simp: list_all2_Cons1)
    next
      case inner: (Inr zs)
      then have "list_all2 (\<lambda>x y. f x = Inr y) xs ws \<longleftrightarrow> ws = zs" for ws
        using Cons.IH [of ws] by auto
      then show ?thesis using inner Inr by (auto simp: list_all2_Cons1)
    qed
  qed
qed

lemma for_each_map:
  assumes "\<forall>x\<in>set xs. f x = Inr (g x)"
  shows "for_each f xs = Inr (map g xs)"
  using assms by (induction xs) simp_all

lemma transposeNote_frame:
  assumes "transposeNote s n = Inr n'"
  shows "note_frame n' = note_frame n"
  using assms
  by (auto simp: transposeNote_def note_frame_def split: option.splits sum.splits)

lemma list_all2_map_eq:
  assumes "list_all2 R xs ys" "\<And>x y. R x y \<Longrightarrow> h y = h x"
  shows "map h ys = map h xs"
  using assms by (induction rule: list_all2_induct) simp_all

lemma transposeMeasure_frame:
  assumes "transposeMeasure s m = Inr m'"
  shows "map note_frame (measure_notes m') = map note_frame (measure_notes m)"
    and "measure_attributes m' = measure_attributes m"
proof -
  obtain ns where ns: "for_each (transposeNote s) (measure_notes m) = Inr ns"
    and m': "m' = m\<lparr>measure_notes := ns\<rparr>"
    using assms by (auto simp: transposeMeasure_def split: sum.splits)
  have "list_all2 (\<lambda>n n'. transposeNote s n = Inr n') (measure_notes m) ns"
    using ns by (simp add: for_each_Inr_iff)
  then have "map note_frame ns = map note_frame (measure_notes m)"
    by (rule list_all2_map_eq) (rule transposeNote_frame)
  then show "map note_frame (measure_notes m') = map note_frame (measure_notes m)"
    by (simp add: m')
  show "measure_attributes m' = measure_attributes m" by (simp add: m')
qed

lemma transposeKey_frame:
  "measure_notes (transposeKey s m) = measure_notes m"
  "map_option attributes_frame (measure_attributes (transposeKey s m))
     = map_option attributes_frame (measure_attributes m)"
  by (cases "measure_attributes m"; simp add: transposeKey_def attributes_frame_def)+

lemma transposeMusicXML_Inr:
  assumes "transposeMusicXML D s = Inr D'"
  obtains ms where "list_all2 (\<lambda>m m'. transposeMeasure s m = Inr m') (measures D) ms"
    and "D' = D\<lparr>measures := map (transposeKey s) ms\<rparr>"
proof -
  obtain ms where ms: "for_each (transposeMeasure s) (measures D) = Inr ms"
    and D': "D' = D\<lparr>measures := map (transposeKey s) ms\<rparr>"
    using assms by (auto simp: transposeMusicXML_def split: sum.splits)
  from ms have "list_all2 (\<lambda>m m'. transposeMeasure s m = Inr m') (measures D) ms"
    by (simp add: for_each_Inr_iff)
  with D' that show thesis by blast
qed

text \<open>
  C9. For every document and every integer \<open>semitones\<close>, the output of transposition has
  the title and composer of the input and, measure by measure, the same durations and
  types of the notes and the same divisions, time signature and clef; only pitch fields
  and the fifths value differ.
\<close>

theorem transposeMusicXML_frame:
  assumes "transposeMusicXML D s = Inr D'"
  shows "work_title D' = work_title D \<and> composer D' = composer D
       \<and> map (\<lambda>m. map note_frame (measure_notes m)) (measures D')
           = map (\<lambda>m. map note_frame (measure_notes m)) (measures D)
       \<and> map (\<lambda>m. map_option attributes_frame (measure_attributes m)) (measures D')
           = map (\<lambda>m. map_option attributes_frame (measure_attributes m)) (measures D)"
proof -
  from assms obtain ms
    where all2: "list_all2 (\<lambda>m m'. transposeMeasure s m = Inr m') (measures D) ms"
      and D': "D' = D\<lparr>measures := map (transposeKey s) ms\<rparr>"
    by (rule transposeMusicXML_Inr)
  have nfr: "map (\<lambda>m. map note_frame (measure_notes m)) ms
                = map (\<lambda>m. map note_frame (measure_notes m)) (measures D)"
    using all2 by (rule list_all2_map_eq) (rule transposeMeasure_frame(1))
  have attrs: "map (\<lambda>m. map_option attributes_frame (measure_attributes m)) ms
                = map (\<lambda>m. map_option attributes_frame (measure_attributes m)) (measures D)"
    using all2 by (rule list_all2_map_eq) (simp add: transposeMeasure_frame(2))
  show ?thesis
    using nfr attrs by (simp add: D' comp_def transposeKey_frame)
qed

lemma canonical_step_nonempty:
  assumes "0 \<le> r" "r < 12"
  shows "fst (canonical_table ! nat r) \<noteq> []"
  using below_12_cases [OF assms]
  by (elim disjE) (simp_all add: canonical_table_def)

lemma pitchMidi_rewritten:
  assumes "stepElement p = Some st" "octaveElement p = Some oc"
  shows "noteToMidi (Some (or_else_str st ''C'')) oc
           (Some (case alterElement p of None \<Rightarrow> 0 | Some a \<Rightarrow> a)) = pitchMidi p"
  using assms by (simp add: pitchMidi_def)

lemma transposePitch_nonneg:
  assumes "rewritten p \<longrightarrow> 0 \<le> pitchMidi p + s"
  shows "transposePitch s p = Inr (transposedPitch s p)"
proof (cases "rewritten p")
  case False
  then show ?thesis
    by (auto simp: rewritten_def transposePitch_def transposedPitch_def split: option.splits)
next
  case True
  then obtain st oc where el: "stepElement p = Some st" "octaveElement p = Some oc"
    by (auto simp: rewritten_def)
  have nn: "0 \<le> pitchMidi p + s" using assms True by simp
  have "transposePitch s p =
      (case alter (midiToNote (pitchMidi p + s)) of
         None \<Rightarrow> Inl TypeError
       | Some a \<Rightarrow>
           Inr \<lparr>stepElement = Some (case step (midiToNote (pitchMidi p + s)) of None \<Rightarrow> [] | Some t \<Rightarrow> t),
                octaveElement = Some (octave (midiToNote (pitchMidi p + s))),
                alterElement = (if a \<noteq> 0 then Some a else None)\<rparr>)"
    by (simp add: transposePitch_def el Let_def pitchMidi_rewritten [OF el] cong: option.case_cong)
  also have "\<dots> = Inr (transposedPitch s p)"
    unfolding midiToNote_nonneg [OF nn] by (simp add: transposedPitch_def True Let_def)
  finally show ?thesis .
qed

lemma transposedPitch_spelling:
  assumes "rewritten p"
  shows "spelling (transposedPitch s p) = canonical_spelling (pitchMidi p + s)"
proof -
  have rng: "0 \<le> (pitchMidi p + s) mod 12" "(pitchMidi p + s) mod 12 < 12" by simp_all
  show ?thesis
    using canonical_step_nonempty [OF rng] assms
    by (simp add: transposedPitch_def spelling_def canonical_spelling_def Let_def or_else_str_def)
qed

lemma pitchMidi_spelling:
  "pitchMidi p = (case spelling p of (st, a, oc) \<Rightarrow> (oc + 1) * 12 + or_else (map_of noteMap st) 0 + a)"
  by (simp add: pitchMidi_def spelling_def noteToMidi_def property_key_def Let_def)

lemma canonical_spelling_value:
  assumes "0 \<le> m"
  shows "(case canonical_spelling m of (st, a, oc) \<Rightarrow> (oc + 1) * 12 + or_else (map_of noteMap st) 0 + a) = m"
proof -
  have "midiOfNote (midiToNote m) = m" using assms by (rule midi_roundtrip_nonneg)
  then show ?thesis
    unfolding midiToNote_nonneg [OF assms] midiOfNote_fields
    by (simp add: canonical_spelling_def)
qed

lemma transposedPitch_value:
  assumes "rewritten p \<longrightarrow> 0 \<le> pitchMidi p + s"
  shows "pitchMidi (transposedPitch s p) = (if rewritten p then pitchMidi p + s else pitchMidi p)"
proof (cases "rewritten p")
  case False
  then show ?thesis by (simp add: transposedPitch_def)
next
  case True
  then have nn: "0 \<le> pitchMidi p + s" using assms by simp
  have "pitchMidi (transposedPitch s p) = pitchMidi p + s"
    unfolding pitchMidi_spelling [of "transposedPitch s p"] transposedPitch_spelling [OF True]
    by (rule canonical_spelling_value [OF nn])
  then show ?thesis using True by simp
qed

lemma pitch_in_pitches:
  assumes "n \<in> set ns" "note_pitch n = Some p"
  shows "p \<in> set (pitches ns)"
  using assms by (force simp: pitches_def)

lemma note_in_allNotes:
  assumes "m \<in> set (measures D)" "n \<in> set (measure_notes m)"
  shows "n \<in> set (allNotes D)"
  using assms by (auto simp: allNotes_def)

lemma transposeNote_nonneg:
  assumes "\<forall>p. note_pitch n = Some p \<longrightarrow> rewritten p \<longrightarrow> 0 \<le> pitchMidi p + s"
  shows "transposeNote s n = Inr (transposedNote s n)"
proof (cases "note_pitch n")
  case None
  then show ?thesis by (simp add: transposeNote_def transposedNote_def)
next
  case (Some p)
  then have "transposePitch s p = Inr (transposedPitch s p)"
    using assms by (intro transposePitch_nonneg) simp
  then show ?thesis using Some by (simp add: transposeNote_def transposedNote_def)
qed

lemma transposeMusicXML_nonneg:
  assumes "\<forall>p\<in>set (pitches (allNotes D)). rewritten p \<longrightarrow> 0 \<le> pitchMidi p + s"
  shows "transposeMusicXML D s
           = Inr (D\<lparr>measures := map (transposeKey s) (map (transposedMeasure s) (measures D))\<rparr>)"
proof -
  have "transposeMeasure s m = Inr (transposedMeasure s m)" if m: "m \<in> set (measures D)" for m
  proof -
    have "\<forall>n\<in>set (measure_notes m). transposeNote s n = Inr (transposedNote s n)"
    proof
      fix n assume n: "n \<in> set (measure_notes m)"
      have "rewritten p \<longrightarrow> 0 \<le> pitchMidi p + s" if "note_pitch n = Some p" for p
        using assms pitch_in_pitches [OF note_in_allNotes [OF m n] that] by blast
      then show "transposeNote s n = Inr (transposedNote s n)"
        by (intro transposeNote_nonneg) blast
    qed
    then have "for_each (transposeNote s) (measure_notes m) = Inr (map (transposedNote s) (measure_notes m))"
      by (rule for_each_map)
    then show ?thesis by (simp add: transposeMeasure_def transposedMeasure_def)
  qed
  then have "for_each (transposeMeasure s) (measures D) = Inr (map (transposedMeasure s) (measures D))"
    by (intro for_each_map) blast
  then show ?thesis by (simp add: transposeMusicXML_def)
qed

lemma pitches_transposedNote:
  "pitches (map (transposedNote s) ns) = map (transposedPitch s) (pitches ns)"
proof (induction ns)
  case Nil
  show ?case by (simp add: pitches_def)
next
  case (Cons n ns)
  have step: "pitches (x # xs) = (case note_pitch x of None \<Rightarrow> [] | Some p \<Rightarrow> [p]) @ pitches xs" for x xs
    by (simp add: pitches_def)
  show ?case
    using Cons.IH by (cases "note_pitch n") (simp_all add: step transposedNote_def)
qed

lemma allNotes_transposed:
  "allNotes (D\<lparr>measures := map (transposeKey s) (map (transposedMeasure s) (measures D))\<rparr>)
     = map (transposedNote s) (allNotes D)"
  by (simp add: allNotes_def map_concat comp_def transposeKey_frame(1) transposedMeasure_def)

lemma transposeMusicXML_pitches:
  assumes "\<forall>p\<in>set (pitches (allNotes D)). rewritten p \<longrightarrow> 0 \<le> pitchMidi p + s"
  shows "\<exists>D'. transposeMusicXML D s = Inr D'
           \<and> pitches (allNotes D') = map (transposedPitch s) (pitches (allNotes D))
           \<and> map (\<lambda>m. map_option fifths (measure_attributes m)) (measures D')
               = map (\<lambda>m. map_option (\<lambda>a. map_option (\<lambda>f. transposeKeySignature f s) (fifths a))
                                      (measure_attributes m)) (measures D)"
proof -
  let ?D' = "D\<lparr>measures := map (transposeKey s) (map (transposedMeasure s) (measures D))\<rparr>"
  have "transposeMusicXML D s = Inr ?D'"
    using assms by (rule transposeMusicXML_nonneg)
  moreover have "pitches (allNotes ?D') = map (transposedPitch s) (pitches (allNotes D))"
    by (simp only: allNotes_transposed pitches_transposedNote)
  moreover have "map_option fifths (measure_attributes (transposeKey s (transposedMeasure s m)))
      = map_option (\<lambda>a. map_option (\<lambda>f. transposeKeySignature f s) (fifths a)) (measure_attributes m)" for m
    by (cases "measure_attributes m") (simp_all add: transposeKey_def transposedMeasure_def)
  then have "map (\<lambda>m. map_option fifths (measure_attributes m)) (measures ?D')
      = map (\<lambda>m. map_option (\<lambda>a. map_option (\<lambda>f. transposeKeySignature f s) (fifths a))
                                      (measure_attributes m)) (measures D)"
    by (simp add: comp_def)
  ultimately show ?thesis by blast
qed






text \<open>
  An instrument name that is neither in the table nor inherited from
  \<^verbatim>\<open>Object.prototype\<close> resolves to 0 semitones; processing then succeeds and every
  note of the recognised document keeps its MIDI value.
\<close>

lemma mock_values_nonneg:
  "\<forall>p\<in>set (pitches (allNotes generateMockMusicXML)). 0 \<le> pitchMidi p"
  by code_simp

lemma processFile_unknown_instrument:
  assumes "map_of INSTRUMENT_TRANSPOSITIONS targetInstrument = None"
    and "targetInstrument \<notin> set Object_prototype_names"
  shows "\<exists>D'. transposeMusicXML generateMockMusicXML 0 = Inr D'
      \<and> processFile upload targetInstrument
          = \<lparr>success = True, musicXML = Some D', midiBlob = Some (generateMIDI D'), error = None\<rparr>
      \<and> map pitchMidi (pitches (allNotes D'))
          = map pitchMidi (pitches (allNotes generateMockMusicXML))"
proof -
  have sem: "or_zero (get_property INSTRUMENT_TRANSPOSITIONS targetInstrument) = Number 0"
    using assms by (simp add: get_property_def or_zero_def)
  have pre: "\<forall>p\<in>set (pitches (allNotes generateMockMusicXML)).
               rewritten p \<longrightarrow> 0 \<le> pitchMidi p + 0"
    using mock_values_nonneg by simp
  from transposeMusicXML_pitches [OF pre] obtain D'
    where D': "transposeMusicXML generateMockMusicXML 0 = Inr D'"
      and ps: "pitches (allNotes D')
                 = map (transposedPitch 0) (pitches (allNotes generateMockMusicXML))"
    by blast
  have same: "pitchMidi (transposedPitch 0 p) = pitchMidi p"
    if "p \<in> set (pitches (allNotes generateMockMusicXML))" for p
    using transposedPitch_value [of p 0] mock_values_nonneg that by simp
  have "map pitchMidi (pitches (allNotes D'))
          = map pitchMidi (pitches (allNotes generateMockMusicXML))"
    unfolding ps map_map by (rule map_cong [OF refl]) (simp add: same)
  moreover have "processFile upload targetInstrument
          = \<lparr>success = True, musicXML = Some D', midiBlob = Some (generateMIDI D'), error = None\<rparr>"
    by (simp add: processFile_def processPDFToMusicXML_def sem transposeMusicXML_value_def D')
  ultimately show ?thesis using D' by blast
qed

text \<open>
  C8. For every instrument name that is not in the table, processing resolves the offset
  to 0, the result is the transposition by 0 with every pitch value unchanged, and no
  error is raised. The name \<^verbatim>\<open>Kazoo\<close> behaves so. The name \<^verbatim>\<open>constructor\<close> is not
  in the table either, but the table object inherits a function under that name, so
  \<^verbatim>\<open>|| 0\<close> does not apply, the transposition throws a TypeError at the first note and
  processing reports failure, for every uploaded file.
\<close>

theorem processFile_inherited_name:
  "\<forall>upload.
     map_of INSTRUMENT_TRANSPOSITIONS ''Kazoo'' = None
   \<and> or_zero (get_property INSTRUMENT_TRANSPOSITIONS ''Kazoo'') = Number 0
   \<and> success (processFile upload ''Kazoo'') = True
   \<and> map_option (\<lambda>d. map pitchMidi (pitches (allNotes d))) (musicXML (processFile upload ''Kazoo''))
       = Some (map pitchMidi (pitches (allNotes generateMockMusicXML)))
   \<and> map_of INSTRUMENT_TRANSPOSITIONS ''constructor'' = None
   \<and> or_zero (get_property INSTRUMENT_TRANSPOSITIONS ''constructor'') = Inherited
   \<and> processFile upload ''constructor''
       = \<lparr>success = False, musicXML = None, midiBlob = None, error = Some TypeError\<rparr>"
proof
  fix upload :: File
  have kazoo: "map_of INSTRUMENT_TRANSPOSITIONS ''Kazoo'' = None" by code_simp
  have plain: "''Kazoo'' \<notin> set Object_prototype_names" by code_simp
  have zero: "or_zero (get_property INSTRUMENT_TRANSPOSITIONS ''Kazoo'') = Number 0"
    by code_simp
  from processFile_unknown_instrument [OF kazoo plain, of upload]
  have ok: "success (processFile upload ''Kazoo'') = True
      \<and> map_option (\<lambda>d. map pitchMidi (pitches (allNotes d))) (musicXML (processFile upload ''Kazoo''))
          = Some (map pitchMidi (pitches (allNotes generateMockMusicXML)))"
    by auto
  have absent: "map_of INSTRUMENT_TRANSPOSITIONS ''constructor'' = None" by code_simp
  have inh: "or_zero (get_property INSTRUMENT_TRANSPOSITIONS ''constructor'') = Inherited"
    by code_simp
  have thrown: "transposeMusicXML_nonNumber generateMockMusicXML = Inl TypeError"
    by code_simp
  have failed: "processFile upload ''constructor''
       = \<lparr>success = False, musicXML = None, midiBlob = None, error = Some TypeError\<rparr>"
    by (simp add: processFile_def processPDFToMusicXML_def inh transposeMusicXML_value_def thrown)
  from kazoo zero ok absent inh failed
  show "map_of INSTRUMENT_TRANSPOSITIONS ''Kazoo'' = None
   \<and> or_zero (get_property INSTRUMENT_TRANSPOSITIONS ''Kazoo'') = Number 0
   \<and> success (processFile upload ''Kazoo'') = True
   \<and> map_option (\<lambda>d. map pitchMidi (pitches (allNotes d))) (musicXML (processFile upload ''Kazoo''))
       = Some (map pitchMidi (pitches (allNotes generateMockMusicXML)))
   \<and> map_of INSTRUMENT_TRANSPOSITIONS ''constructor'' = None
   \<and> or_zero (get_property INSTRUMENT_TRANSPOSITIONS ''constructor'') = Inherited
   \<and> processFile upload ''constructor''
       = \<lparr>success = False, musicXML = None, midiBlob = None, error = Some TypeError\<rparr>"
    by blast
qed

theorem transposeMusicXML_frame_witness:
  "transposeMusicXML sampleDocument 2 = Inr sampleTransposed
   \<and> work_title sampleTransposed = work_title sampleDocument
   \<and> composer sampleTransposed = composer sampleDocument
   \<and> map (\<lambda>m. map note_frame (measure_notes m)) (measures sampleTransposed)
       = [ [(4, ''quarter''), (8, ''half'')] ]
   \<and> map (\<lambda>m. map_option attributes_frame (measure_attributes m)) (measures sampleTransposed)
       = [Some (4, 4, 4, ''G'', 2)]"
proof -
  have h: "transposeMusicXML sampleDocument 2 = Inr sampleTransposed" by code_simp
  have n: "map (\<lambda>m. map note_frame (measure_notes m)) (measures sampleDocument)
       = [ [(4, ''quarter''), (8, ''half'')] ]" by code_simp
  have a: "map (\<lambda>m. map_option attributes_frame (measure_attributes m)) (measures sampleDocument)
       = [Some (4, 4, 4, ''G'', 2)]" by code_simp
  from transposeMusicXML_frame [OF h] h n a show ?thesis by simp
qed

end
